theory Spec2Isabelle
  imports Main "HOL-Library.AList"
begin

section \<open>Errors\<close>

text \<open>
  Every error value the handler package can see. \<open>Errorf p e\<close> is
  \<^verbatim>\<open>fmt.Errorf(p + ": %w", e)\<close>: the prefix and the wrapped cause.
  \<open>LibraryError\<close> stands for an error of a library whose inside is not modelled
  (template parsing and execution, media type parsing).
\<close>

datatype error =
    ErrNotExist string
  | EOF
  | ErrUnexpectedEOF
  | SyntaxError string
  | UnmarshalTypeError string string
  | EscapeError string
  | ErrSemicolon
  | ErrTooManyParams
  | ErrPostTooLarge
  | LibraryError string
  | Errorf string error

text \<open>Sequencing of fallible steps: the first error is the result.\<close>

definition and_then :: "error + 'a \<Rightarrow> ('a \<Rightarrow> error + 'b) \<Rightarrow> error + 'b" where
  "and_then r f = (case r of Inl e \<Rightarrow> Inl e | Inr x \<Rightarrow> f x)"

section \<open>The data model (handler package)\<close>

record Project =
  Project_Title :: string
  Project_Description :: string
  Project_Tags :: "string list"
  Project_Link :: string
  Project_Image :: string

record Interest =
  Interest_Emoji :: string
  Interest_Label :: string
  Interest_Description :: string

record Experience =
  Experience_Role :: string
  Experience_Company :: string
  Experience_CompanyURL :: string
  Experience_Logo :: string
  Experience_StartDate :: string
  Experience_EndDate :: string
  Experience_Description :: "string list"
  Experience_Type :: string

record About =
  About_Name :: string
  About_Tagline :: string
  About_Bio :: string
  About_Location :: string
  About_Availability :: bool
  About_YearsOfExperience :: int
  About_Email :: string
  About_GitHub :: string
  About_LinkedIn :: string
  About_X :: string
  About_ProfilePhoto :: string

record PageData =
  PageData_About :: About
  PageData_Projects :: "Project list"
  PageData_Interests :: "Interest list"
  PageData_Skills :: "string list"
  PageData_Experience :: "Experience list"

text \<open>The zero values Go gives a declared variable (\<^verbatim>\<open>var about About\<close>).\<close>

definition zero_Project :: Project where
  "zero_Project = \<lparr>Project_Title = [], Project_Description = [], Project_Tags = [],
     Project_Link = [], Project_Image = []\<rparr>"

definition zero_Interest :: Interest where
  "zero_Interest = \<lparr>Interest_Emoji = [], Interest_Label = [], Interest_Description = []\<rparr>"

definition zero_Experience :: Experience where
  "zero_Experience = \<lparr>Experience_Role = [], Experience_Company = [],
     Experience_CompanyURL = [], Experience_Logo = [], Experience_StartDate = [],
     Experience_EndDate = [], Experience_Description = [], Experience_Type = []\<rparr>"

definition zero_About :: About where
  "zero_About = \<lparr>About_Name = [], About_Tagline = [], About_Bio = [], About_Location = [],
     About_Availability = False, About_YearsOfExperience = 0, About_Email = [],
     About_GitHub = [], About_LinkedIn = [], About_X = [], About_ProfilePhoto = []\<rparr>"

section \<open>encoding/json: reading one value from a byte stream\<close>

text \<open>
  \<^verbatim>\<open>json.NewDecoder(f).Decode(v)\<close> is library code. It is modelled after the
  library's scanner: a state machine fed one byte at a time, with a stack of the
  containers that are open, which stops as soon as the first top-level value is complete.
  The model builds the value while it scans. A number keeps its literal text; a string is
  kept as its decoded items until it is closed.

  Not modelled: the replacement of invalid UTF-8 in the input by U+FFFD (bytes from 0x80
  are copied as they are, which is what the library does on valid UTF-8), and the byte
  offsets and field paths carried by the library's error values.
\<close>

datatype json =
    JNull
  | JBool bool
  | JNumber string
  | JString string
  | JArray "json list"
  | JObject "(string \<times> json) list"

text \<open>A string item: a byte, or the code unit of a \<^verbatim>\<open>\uXXXX\<close> escape.\<close>

datatype item = Byte char | U4 nat

text \<open>
  The open containers, innermost first, each with what it holds so far:
  an object waiting for a key or for the colon, an object waiting for the value of a key
  or for what follows it, an array.
\<close>

datatype parseState =
    parseObjectKey "(string \<times> json) list"
  | parseObjectValue "(string \<times> json) list" string
  | parseArrayValue "json list"

datatype step =
    stateBeginValue
  | stateBeginValueOrEmpty
  | stateBeginStringOrEmpty
  | stateBeginString
  | stateEndValue json
  | stateInString "item list"
  | stateInStringEsc "item list"
  | stateInStringEscU "item list" "nat list"
  | stateNeg
  | state1 string
  | state0 string
  | stateDot string
  | stateDot0 string
  | stateE string
  | stateESign string
  | stateE0 string
  | stateLit string json

datatype scan =
    scanError error
  | scanContinue step "parseState list"
  | scanEnd json
  | scanEndAfter json

definition isSpace :: "char \<Rightarrow> bool" where
  "isSpace c = (c = CHR '' '' \<or> c = CHR 0x09 \<or> c = CHR 0x0D \<or> c = CHR 0x0A)"

text \<open>\<open>inRange lo hi c\<close> is the byte comparison \<^verbatim>\<open>lo <= c && c <= hi\<close>.\<close>

definition inRange :: "char \<Rightarrow> char \<Rightarrow> char \<Rightarrow> bool" where
  "inRange lo hi c = ((of_char lo :: nat) \<le> of_char c \<and> (of_char c :: nat) \<le> of_char hi)"

definition isDigit :: "char \<Rightarrow> bool" where
  "isDigit c = inRange (CHR ''0'') (CHR ''9'') c"

definition hexval :: "char \<Rightarrow> nat option" where
  "hexval c =
     (if inRange (CHR ''0'') (CHR ''9'') c then Some (of_char c - 48)
      else if inRange (CHR ''a'') (CHR ''f'') c then Some (of_char c - 87)
      else if inRange (CHR ''A'') (CHR ''F'') c then Some (of_char c - 55)
      else None)"

definition maxNestingDepth :: nat where
  "maxNestingDepth = 10000"

subsection \<open>Strings: UTF-16 escapes to UTF-8 bytes\<close>

definition EncodeRune :: "nat \<Rightarrow> string" where
  "EncodeRune r =
     (if r < 0x80 then [char_of r]
      else if r < 0x800 then [char_of (0xC0 + r div 64), char_of (0x80 + r mod 64)]
      else if r < 0x10000 then
        [char_of (0xE0 + r div 4096), char_of (0x80 + (r div 64) mod 64),
         char_of (0x80 + r mod 64)]
      else
        [char_of (0xF0 + r div 262144), char_of (0x80 + (r div 4096) mod 64),
         char_of (0x80 + (r div 64) mod 64), char_of (0x80 + r mod 64)])"

definition IsSurrogate :: "nat \<Rightarrow> bool" where
  "IsSurrogate r = (0xD800 \<le> r \<and> r < 0xE000)"

definition ReplacementChar :: nat where
  "ReplacementChar = 0xFFFD"

definition DecodeRune :: "nat \<Rightarrow> nat \<Rightarrow> nat" where
  "DecodeRune r1 r2 =
     (if 0xD800 \<le> r1 \<and> r1 < 0xDC00 \<and> 0xDC00 \<le> r2 \<and> r2 < 0xE000
      then (r1 - 0xD800) * 1024 + (r2 - 0xDC00) + 0x10000
      else ReplacementChar)"

text \<open>
  The library's \<^verbatim>\<open>unquote\<close>: a surrogate code unit followed at once by an escape
  that completes the pair gives the pair's rune and uses both; any other surrogate gives
  U+FFFD and uses only itself.
\<close>

fun unquote :: "item list \<Rightarrow> string" where
  "unquote [] = []"
| "unquote (Byte c # xs) = c # unquote xs"
| "unquote (U4 rr # xs) =
     (if IsSurrogate rr then
        (case xs of
           U4 rr1 # ys \<Rightarrow>
             if DecodeRune rr rr1 \<noteq> ReplacementChar
             then EncodeRune (DecodeRune rr rr1) @ unquote ys
             else EncodeRune ReplacementChar @ unquote xs
         | _ \<Rightarrow> EncodeRune ReplacementChar @ unquote xs)
      else EncodeRune rr @ unquote xs)"

subsection \<open>The scanner's step functions\<close>

text \<open>
  A value \<open>v\<close> has just been completed and the byte \<open>c\<close> follows it
  (\<^verbatim>\<open>stateEndValue\<close>). With no container open the scan is over and \<open>c\<close> is not used.
\<close>

definition endValue :: "json \<Rightarrow> parseState list \<Rightarrow> char \<Rightarrow> scan" where
  "endValue v ps c =
     (case ps of
        [] \<Rightarrow> scanEnd v
      | p # ps' \<Rightarrow>
          if isSpace c then scanContinue (stateEndValue v) ps
          else (case p of
             parseObjectKey ms \<Rightarrow>
               (case v of
                  JString k \<Rightarrow>
                    if c = CHR '':'' then scanContinue stateBeginValue (parseObjectValue ms k # ps')
                    else scanError (SyntaxError ''after object key'')
                | _ \<Rightarrow> scanError (SyntaxError ''after object key''))
           | parseObjectValue ms k \<Rightarrow>
               if c = CHR '','' then
                 scanContinue stateBeginString (parseObjectKey (ms @ [(k, v)]) # ps')
               else if c = CHR ''}'' then
                 (if ps' = [] then scanEndAfter (JObject (ms @ [(k, v)]))
                  else scanContinue (stateEndValue (JObject (ms @ [(k, v)]))) ps')
               else scanError (SyntaxError ''after object key:value pair'')
           | parseArrayValue xs \<Rightarrow>
               if c = CHR '','' then scanContinue stateBeginValue (parseArrayValue (xs @ [v]) # ps')
               else if c = CHR '']'' then
                 (if ps' = [] then scanEndAfter (JArray (xs @ [v]))
                  else scanContinue (stateEndValue (JArray (xs @ [v]))) ps')
               else scanError (SyntaxError ''after array element'')))"

text \<open>A container that closes empty (\<^verbatim>\<open>[]\<close>, \<^verbatim>\<open>{}\<close>): pop it.\<close>

definition endEmpty :: "json \<Rightarrow> parseState list \<Rightarrow> scan" where
  "endEmpty v ps =
     (case ps of
        [] \<Rightarrow> scanEndAfter v
      | p # ps' \<Rightarrow> if ps' = [] then scanEndAfter v else scanContinue (stateEndValue v) ps')"

text \<open>A string closes: it is a value, or the key of the innermost object.\<close>

definition endString :: "item list \<Rightarrow> parseState list \<Rightarrow> scan" where
  "endString its ps =
     (case ps of
        [] \<Rightarrow> scanEndAfter (JString (unquote its))
      | _ \<Rightarrow> scanContinue (stateEndValue (JString (unquote its))) ps)"

definition endLiteral :: "json \<Rightarrow> parseState list \<Rightarrow> scan" where
  "endLiteral v ps =
     (case ps of
        [] \<Rightarrow> scanEndAfter v
      | _ \<Rightarrow> scanContinue (stateEndValue v) ps)"

definition pushParseState :: "parseState \<Rightarrow> step \<Rightarrow> parseState list \<Rightarrow> scan" where
  "pushParseState p st ps =
     (if length (p # ps) \<le> maxNestingDepth then scanContinue st (p # ps)
      else scanError (SyntaxError ''exceeded max depth''))"

definition beginString :: "parseState list \<Rightarrow> char \<Rightarrow> scan" where
  "beginString ps c =
     (if isSpace c then scanContinue stateBeginString ps
      else if c = CHR 0x22 then scanContinue (stateInString []) ps
      else scanError (SyntaxError ''looking for beginning of object key string''))"

definition beginValue :: "parseState list \<Rightarrow> char \<Rightarrow> scan" where
  "beginValue ps c =
     (if isSpace c then scanContinue stateBeginValue ps
      else if c = CHR ''{'' then pushParseState (parseObjectKey []) stateBeginStringOrEmpty ps
      else if c = CHR ''['' then pushParseState (parseArrayValue []) stateBeginValueOrEmpty ps
      else if c = CHR 0x22 then scanContinue (stateInString []) ps
      else if c = CHR ''-'' then scanContinue stateNeg ps
      else if c = CHR ''0'' then scanContinue (state0 [c]) ps
      else if c = CHR ''t'' then scanContinue (stateLit ''rue'' (JBool True)) ps
      else if c = CHR ''f'' then scanContinue (stateLit ''alse'' (JBool False)) ps
      else if c = CHR ''n'' then scanContinue (stateLit ''ull'' JNull) ps
      else if inRange (CHR ''1'') (CHR ''9'') c then scanContinue (state1 [c]) ps
      else scanError (SyntaxError ''looking for beginning of value''))"

definition unescape :: "char \<Rightarrow> char option" where
  "unescape c =
     (if c = CHR ''b'' then Some (CHR 0x08)
      else if c = CHR ''f'' then Some (CHR 0x0C)
      else if c = CHR ''n'' then Some (CHR 0x0A)
      else if c = CHR ''r'' then Some (CHR 0x0D)
      else if c = CHR ''t'' then Some (CHR 0x09)
      else if c = CHR 0x5C \<or> c = CHR ''/'' \<or> c = CHR 0x22 then Some c
      else None)"

definition after0 :: "string \<Rightarrow> parseState list \<Rightarrow> char \<Rightarrow> scan" where
  "after0 lit ps c =
     (if c = CHR ''.'' then scanContinue (stateDot (lit @ [c])) ps
      else if c = CHR ''e'' \<or> c = CHR ''E'' then scanContinue (stateE (lit @ [c])) ps
      else endValue (JNumber lit) ps c)"

definition afterESign :: "string \<Rightarrow> parseState list \<Rightarrow> char \<Rightarrow> scan" where
  "afterESign lit ps c =
     (if isDigit c then scanContinue (stateE0 (lit @ [c])) ps
      else scanError (SyntaxError ''in exponent of numeric literal''))"

definition scan_step :: "step \<Rightarrow> parseState list \<Rightarrow> char \<Rightarrow> scan" where
  "scan_step st ps c =
     (case st of
        stateBeginValue \<Rightarrow> beginValue ps c
      | stateBeginValueOrEmpty \<Rightarrow>
          if isSpace c then scanContinue stateBeginValueOrEmpty ps
          else if c = CHR '']'' then endEmpty (JArray []) ps
          else beginValue ps c
      | stateBeginStringOrEmpty \<Rightarrow>
          if isSpace c then scanContinue stateBeginStringOrEmpty ps
          else if c = CHR ''}'' then endEmpty (JObject []) ps
          else beginString ps c
      | stateBeginString \<Rightarrow> beginString ps c
      | stateEndValue v \<Rightarrow> endValue v ps c
      | stateInString its \<Rightarrow>
          if c = CHR 0x22 then endString its ps
          else if c = CHR 0x5C then scanContinue (stateInStringEsc its) ps
          else if (of_char c :: nat) < 0x20 then scanError (SyntaxError ''in string literal'')
          else scanContinue (stateInString (its @ [Byte c])) ps
      | stateInStringEsc its \<Rightarrow>
          if c = CHR ''u'' then scanContinue (stateInStringEscU its []) ps
          else (case unescape c of
             Some b \<Rightarrow> scanContinue (stateInString (its @ [Byte b])) ps
           | None \<Rightarrow> scanError (SyntaxError ''in string escape code''))
      | stateInStringEscU its hs \<Rightarrow>
          (case hexval c of
             None \<Rightarrow> scanError (SyntaxError ''in hexadecimal character escape'')
           | Some h \<Rightarrow>
               if length hs < 3 then scanContinue (stateInStringEscU its (hs @ [h])) ps
               else scanContinue
                 (stateInString (its @ [U4 (foldl (\<lambda>a d. a * 16 + d) 0 (hs @ [h]))])) ps)
      | stateNeg \<Rightarrow>
          if c = CHR ''0'' then scanContinue (state0 [CHR ''-'', c]) ps
          else if inRange (CHR ''1'') (CHR ''9'') c then scanContinue (state1 [CHR ''-'', c]) ps
          else scanError (SyntaxError ''in numeric literal'')
      | state1 lit \<Rightarrow>
          if isDigit c then scanContinue (state1 (lit @ [c])) ps else after0 lit ps c
      | state0 lit \<Rightarrow> after0 lit ps c
      | stateDot lit \<Rightarrow>
          if isDigit c then scanContinue (stateDot0 (lit @ [c])) ps
          else scanError (SyntaxError ''after decimal point in numeric literal'')
      | stateDot0 lit \<Rightarrow>
          if isDigit c then scanContinue (stateDot0 (lit @ [c])) ps
          else if c = CHR ''e'' \<or> c = CHR ''E'' then scanContinue (stateE (lit @ [c])) ps
          else endValue (JNumber lit) ps c
      | stateE lit \<Rightarrow>
          if c = CHR ''+'' \<or> c = CHR ''-'' then scanContinue (stateESign (lit @ [c])) ps
          else afterESign lit ps c
      | stateESign lit \<Rightarrow> afterESign lit ps c
      | stateE0 lit \<Rightarrow>
          if isDigit c then scanContinue (stateE0 (lit @ [c])) ps
          else endValue (JNumber lit) ps c
      | stateLit rest v \<Rightarrow>
          (case rest of
             [] \<Rightarrow> scanError (SyntaxError ''in literal'')
           | x # rest' \<Rightarrow>
               if c \<noteq> x then scanError (SyntaxError ''in literal'')
               else if rest' = [] then endLiteral v ps
               else scanContinue (stateLit rest' v) ps))"

text \<open>
  The input ends (\<^verbatim>\<open>io.EOF\<close> in \<^verbatim>\<open>readValue\<close>): a number that reaches the end of
  the input at top level is complete; input with nothing but white space is \<open>EOF\<close>;
  anything else was cut short.
\<close>

definition atEOF :: "step \<Rightarrow> parseState list \<Rightarrow> error + json" where
  "atEOF st ps =
     (case ps of
        _ # _ \<Rightarrow> Inl ErrUnexpectedEOF
      | [] \<Rightarrow>
          (case st of
             stateBeginValue \<Rightarrow> Inl EOF
           | state1 lit \<Rightarrow> Inr (JNumber lit)
           | state0 lit \<Rightarrow> Inr (JNumber lit)
           | stateDot0 lit \<Rightarrow> Inr (JNumber lit)
           | stateE0 lit \<Rightarrow> Inr (JNumber lit)
           | _ \<Rightarrow> Inl ErrUnexpectedEOF))"

text \<open>
  \<^verbatim>\<open>readValue\<close>: feed the bytes to the scanner until the first value is complete.
  The result is that value and the bytes that were not used.
\<close>

fun readValue :: "step \<Rightarrow> parseState list \<Rightarrow> string \<Rightarrow> error + (json \<times> string)" where
  "readValue st ps [] = (case atEOF st ps of Inl e \<Rightarrow> Inl e | Inr v \<Rightarrow> Inr (v, []))"
| "readValue st ps (c # cs) =
     (case scan_step st ps c of
        scanError e \<Rightarrow> Inl e
      | scanContinue st' ps' \<Rightarrow> readValue st' ps' cs
      | scanEnd v \<Rightarrow> Inr (v, c # cs)
      | scanEndAfter v \<Rightarrow> Inr (v, cs))"

section \<open>encoding/json: storing a value into a Go variable\<close>

text \<open>
  The library's \<^verbatim>\<open>unmarshal\<close> stores a scanned value into the variable behind the
  pointer it is given; reflection picks the rule from the variable's type. The model has
  one function per Go type, which takes the variable's current value and returns its new
  one. The library's rules, as they apply to the types of this package:
  \<^item> \<^verbatim>\<open>null\<close> leaves a string, a bool, an int and a struct as they are, and sets a
    slice to nil;
  \<^item> a value of the wrong JSON kind is an \<^verbatim>\<open>UnmarshalTypeError\<close>;
  \<^item> a number goes into an int only if \<^verbatim>\<open>strconv.ParseInt\<close> accepts its literal in
    64 bits;
  \<^item> an object goes into a struct member by member, in the order of the input: a key is
    matched with a field's \<^verbatim>\<open>json\<close> name exactly, or else under case folding; a key
    that matches no field is skipped; a field that no key matches is not touched;
  \<^item> an array goes into a slice element by element, each stored over the element the
    slice already has at that index, or over a zero value.
  The library goes on after the first type error and returns it at the end; the model
  returns it at once. A nil slice and an empty one are both \<open>[]\<close>, and a slice's
  capacity beyond its length is not modelled.
\<close>

definition typeError :: "json \<Rightarrow> string \<Rightarrow> error" where
  "typeError v ty =
     UnmarshalTypeError
       (case v of
          JNull \<Rightarrow> ''null''
        | JBool b \<Rightarrow> ''bool''
        | JNumber lit \<Rightarrow> ''number''
        | JString s \<Rightarrow> ''string''
        | JArray xs \<Rightarrow> ''array''
        | JObject ms \<Rightarrow> ''object'')
       ty"

definition unmarshal_string :: "string \<Rightarrow> json \<Rightarrow> error + string" where
  "unmarshal_string old v =
     (case v of
        JNull \<Rightarrow> Inr old
      | JString s \<Rightarrow> Inr s
      | _ \<Rightarrow> Inl (typeError v ''string''))"

definition unmarshal_bool :: "bool \<Rightarrow> json \<Rightarrow> error + bool" where
  "unmarshal_bool old v =
     (case v of
        JNull \<Rightarrow> Inr old
      | JBool b \<Rightarrow> Inr b
      | _ \<Rightarrow> Inl (typeError v ''bool''))"

definition digits :: "string \<Rightarrow> nat" where
  "digits s = foldl (\<lambda>a c. a * 10 + (of_char c - 48)) 0 s"

text \<open>\<^verbatim>\<open>strconv.ParseInt(s, 10, 64)\<close> on the literal of a JSON number.\<close>

definition ParseInt :: "string \<Rightarrow> int option" where
  "ParseInt s =
     (let neg = (s \<noteq> [] \<and> hd s = CHR ''-'');
          ds = (if neg then tl s else s);
          n = (if neg then - int (digits ds) else int (digits ds))
      in if ds = [] \<or> \<not> list_all isDigit ds then None
         else if n < - (2 ^ 63) \<or> 2 ^ 63 - 1 < n then None
         else Some n)"

definition unmarshal_int :: "int \<Rightarrow> json \<Rightarrow> error + int" where
  "unmarshal_int old v =
     (case v of
        JNull \<Rightarrow> Inr old
      | JNumber lit \<Rightarrow>
          (case ParseInt lit of
             Some n \<Rightarrow> Inr n
           | None \<Rightarrow> Inl (UnmarshalTypeError (''number '' @ lit) ''int''))
      | _ \<Rightarrow> Inl (typeError v ''int''))"

fun array :: "('a \<Rightarrow> json \<Rightarrow> error + 'a) \<Rightarrow> 'a \<Rightarrow> 'a list \<Rightarrow> json list \<Rightarrow> error + 'a list" where
  "array elem zero old [] = Inr []"
| "array elem zero old (v # vs) =
     and_then (elem (case old of [] \<Rightarrow> zero | x # xs \<Rightarrow> x) v)
       (\<lambda>y. and_then (array elem zero (tl old) vs) (\<lambda>ys. Inr (y # ys)))"

definition unmarshal_slice ::
  "('a \<Rightarrow> json \<Rightarrow> error + 'a) \<Rightarrow> 'a \<Rightarrow> string \<Rightarrow> 'a list \<Rightarrow> json \<Rightarrow> error + 'a list" where
  "unmarshal_slice elem zero ty old v =
     (case v of
        JNull \<Rightarrow> Inr []
      | JArray vs \<Rightarrow> array elem zero old vs
      | _ \<Rightarrow> Inl (typeError v ty))"

text \<open>
  \<^verbatim>\<open>foldName\<close>: ASCII letters to upper case; the Kelvin sign (U+212A) and the long s
  (U+017F) fold to \<open>K\<close> and \<open>S\<close>. The other runes beyond ASCII fold to runes beyond
  ASCII, which no field name of this package has, and are left as they are.
\<close>

fun foldName :: "string \<Rightarrow> string" where
  "foldName [] = []"
| "foldName (c # cs) =
     (if inRange (CHR ''a'') (CHR ''z'') c then char_of (of_char c - (32::nat)) # foldName cs
      else if c = CHR 0xE2 \<and> take 2 cs = [CHR 0x84, CHR 0xAA] then CHR ''K'' # foldName (drop 2 cs)
      else if c = CHR 0xC5 \<and> take 1 cs = [CHR 0xBF] then CHR ''S'' # foldName (drop 1 cs)
      else c # foldName cs)"

definition lookupField :: "string list \<Rightarrow> string \<Rightarrow> string option" where
  "lookupField names key =
     (if key \<in> set names then Some key
      else find (\<lambda>n. foldName n = foldName key) names)"

fun object :: "string list \<Rightarrow> (string \<Rightarrow> json \<Rightarrow> 'a \<Rightarrow> error + 'a) \<Rightarrow> 'a \<Rightarrow>
    (string \<times> json) list \<Rightarrow> error + 'a" where
  "object names store x [] = Inr x"
| "object names store x ((key, v) # ms) =
     (case lookupField names key of
        None \<Rightarrow> object names store x ms
      | Some f \<Rightarrow> and_then (store f v x) (\<lambda>x'. object names store x' ms))"

definition unmarshal_struct ::
  "string list \<Rightarrow> (string \<Rightarrow> json \<Rightarrow> 'a \<Rightarrow> error + 'a) \<Rightarrow> string \<Rightarrow> 'a \<Rightarrow> json \<Rightarrow> error + 'a" where
  "unmarshal_struct names store ty old v =
     (case v of
        JNull \<Rightarrow> Inr old
      | JObject ms \<Rightarrow> object names store old ms
      | _ \<Rightarrow> Inl (typeError v ty))"

subsection \<open>The types of the handler package, by their json tags\<close>

definition Project_fields :: "string list" where
  "Project_fields = [''title'', ''description'', ''tags'', ''link'', ''image'']"

definition Project_store :: "string \<Rightarrow> json \<Rightarrow> Project \<Rightarrow> error + Project" where
  "Project_store f v p =
     (if f = ''title'' then
        and_then (unmarshal_string (Project_Title p) v) (\<lambda>x. Inr (p\<lparr>Project_Title := x\<rparr>))
      else if f = ''description'' then
        and_then (unmarshal_string (Project_Description p) v)
          (\<lambda>x. Inr (p\<lparr>Project_Description := x\<rparr>))
      else if f = ''tags'' then
        and_then (unmarshal_slice unmarshal_string [] ''[]string'' (Project_Tags p) v)
          (\<lambda>x. Inr (p\<lparr>Project_Tags := x\<rparr>))
      else if f = ''link'' then
        and_then (unmarshal_string (Project_Link p) v) (\<lambda>x. Inr (p\<lparr>Project_Link := x\<rparr>))
      else if f = ''image'' then
        and_then (unmarshal_string (Project_Image p) v) (\<lambda>x. Inr (p\<lparr>Project_Image := x\<rparr>))
      else Inr p)"

definition unmarshal_Project :: "Project \<Rightarrow> json \<Rightarrow> error + Project" where
  "unmarshal_Project = unmarshal_struct Project_fields Project_store ''handler.Project''"

definition Interest_fields :: "string list" where
  "Interest_fields = [''emoji'', ''label'', ''description'']"

definition Interest_store :: "string \<Rightarrow> json \<Rightarrow> Interest \<Rightarrow> error + Interest" where
  "Interest_store f v i =
     (if f = ''emoji'' then
        and_then (unmarshal_string (Interest_Emoji i) v) (\<lambda>x. Inr (i\<lparr>Interest_Emoji := x\<rparr>))
      else if f = ''label'' then
        and_then (unmarshal_string (Interest_Label i) v) (\<lambda>x. Inr (i\<lparr>Interest_Label := x\<rparr>))
      else if f = ''description'' then
        and_then (unmarshal_string (Interest_Description i) v)
          (\<lambda>x. Inr (i\<lparr>Interest_Description := x\<rparr>))
      else Inr i)"

definition unmarshal_Interest :: "Interest \<Rightarrow> json \<Rightarrow> error + Interest" where
  "unmarshal_Interest = unmarshal_struct Interest_fields Interest_store ''handler.Interest''"

definition Experience_fields :: "string list" where
  "Experience_fields = [''role'', ''company'', ''company_url'', ''logo'', ''start_date'',
     ''end_date'', ''description'', ''type'']"

definition Experience_store :: "string \<Rightarrow> json \<Rightarrow> Experience \<Rightarrow> error + Experience" where
  "Experience_store f v e =
     (if f = ''role'' then
        and_then (unmarshal_string (Experience_Role e) v) (\<lambda>x. Inr (e\<lparr>Experience_Role := x\<rparr>))
      else if f = ''company'' then
        and_then (unmarshal_string (Experience_Company e) v)
          (\<lambda>x. Inr (e\<lparr>Experience_Company := x\<rparr>))
      else if f = ''company_url'' then
        and_then (unmarshal_string (Experience_CompanyURL e) v)
          (\<lambda>x. Inr (e\<lparr>Experience_CompanyURL := x\<rparr>))
      else if f = ''logo'' then
        and_then (unmarshal_string (Experience_Logo e) v) (\<lambda>x. Inr (e\<lparr>Experience_Logo := x\<rparr>))
      else if f = ''start_date'' then
        and_then (unmarshal_string (Experience_StartDate e) v)
          (\<lambda>x. Inr (e\<lparr>Experience_StartDate := x\<rparr>))
      else if f = ''end_date'' then
        and_then (unmarshal_string (Experience_EndDate e) v)
          (\<lambda>x. Inr (e\<lparr>Experience_EndDate := x\<rparr>))
      else if f = ''description'' then
        and_then (unmarshal_slice unmarshal_string [] ''[]string'' (Experience_Description e) v)
          (\<lambda>x. Inr (e\<lparr>Experience_Description := x\<rparr>))
      else if f = ''type'' then
        and_then (unmarshal_string (Experience_Type e) v) (\<lambda>x. Inr (e\<lparr>Experience_Type := x\<rparr>))
      else Inr e)"

definition unmarshal_Experience :: "Experience \<Rightarrow> json \<Rightarrow> error + Experience" where
  "unmarshal_Experience =
     unmarshal_struct Experience_fields Experience_store ''handler.Experience''"

definition About_fields :: "string list" where
  "About_fields = [''name'', ''tagline'', ''bio'', ''location'', ''availability'',
     ''years_of_experience'', ''email'', ''github'', ''linkedin'', ''x'', ''profile_photo'']"

definition About_store :: "string \<Rightarrow> json \<Rightarrow> About \<Rightarrow> error + About" where
  "About_store f v a =
     (if f = ''name'' then
        and_then (unmarshal_string (About_Name a) v) (\<lambda>x. Inr (a\<lparr>About_Name := x\<rparr>))
      else if f = ''tagline'' then
        and_then (unmarshal_string (About_Tagline a) v) (\<lambda>x. Inr (a\<lparr>About_Tagline := x\<rparr>))
      else if f = ''bio'' then
        and_then (unmarshal_string (About_Bio a) v) (\<lambda>x. Inr (a\<lparr>About_Bio := x\<rparr>))
      else if f = ''location'' then
        and_then (unmarshal_string (About_Location a) v) (\<lambda>x. Inr (a\<lparr>About_Location := x\<rparr>))
      else if f = ''availability'' then
        and_then (unmarshal_bool (About_Availability a) v)
          (\<lambda>x. Inr (a\<lparr>About_Availability := x\<rparr>))
      else if f = ''years_of_experience'' then
        and_then (unmarshal_int (About_YearsOfExperience a) v)
          (\<lambda>x. Inr (a\<lparr>About_YearsOfExperience := x\<rparr>))
      else if f = ''email'' then
        and_then (unmarshal_string (About_Email a) v) (\<lambda>x. Inr (a\<lparr>About_Email := x\<rparr>))
      else if f = ''github'' then
        and_then (unmarshal_string (About_GitHub a) v) (\<lambda>x. Inr (a\<lparr>About_GitHub := x\<rparr>))
      else if f = ''linkedin'' then
        and_then (unmarshal_string (About_LinkedIn a) v) (\<lambda>x. Inr (a\<lparr>About_LinkedIn := x\<rparr>))
      else if f = ''x'' then
        and_then (unmarshal_string (About_X a) v) (\<lambda>x. Inr (a\<lparr>About_X := x\<rparr>))
      else if f = ''profile_photo'' then
        and_then (unmarshal_string (About_ProfilePhoto a) v)
          (\<lambda>x. Inr (a\<lparr>About_ProfilePhoto := x\<rparr>))
      else Inr a)"

definition unmarshal_About :: "About \<Rightarrow> json \<Rightarrow> error + About" where
  "unmarshal_About = unmarshal_struct About_fields About_store ''handler.About''"

section \<open>The file tree and the decoder\<close>

text \<open>
  The \<^verbatim>\<open>fs.FS\<close> handed to \<open>New\<close> is the tree embedded in the binary: a map from a
  path to the bytes of the file there. Opening a path with no file fails.
\<close>

type_synonym FS = "string \<Rightarrow> string option"

definition Open :: "FS \<Rightarrow> string \<Rightarrow> error + string" where
  "Open fsys path =
     (case fsys path of
        None \<Rightarrow> Inl (ErrNotExist path)
      | Some content \<Rightarrow> Inr content)"

text \<open>
  \<^verbatim>\<open>json.NewDecoder(f).Decode(v)\<close>, called once on a new decoder: scan the first
  value of the stream, then store it. The bytes after that value are not looked at.
  \<open>unmarshal\<close> is the store into the variable \<open>v\<close> points to.
\<close>

definition Decode :: "string \<Rightarrow> (json \<Rightarrow> error + 'a) \<Rightarrow> error + 'a" where
  "Decode content unmarshal =
     (case readValue stateBeginValue [] content of
        Inl err \<Rightarrow> Inl err
      | Inr (v, rest) \<Rightarrow> unmarshal v)"

definition loadJSON :: "FS \<Rightarrow> string \<Rightarrow> (json \<Rightarrow> error + 'a) \<Rightarrow> error + 'a" where
  "loadJSON fsys path unmarshal =
     (case Open fsys path of
        Inl err \<Rightarrow> Inl err
      | Inr f \<Rightarrow> Decode f unmarshal)"

section \<open>The handler and its construction\<close>

text \<open>
  \<^verbatim>\<open>html/template\<close> is a library whose inside is not modelled. A parsed template set
  is what it does when a named template is executed on the page data: the chunks it
  writes to the destination, in order, and the error it ends with, if any.
  \<^verbatim>\<open>template.ParseFS\<close> is a parameter of \<open>New\<close>.
\<close>

type_synonym Template = "string \<Rightarrow> PageData \<Rightarrow> string list \<times> error option"

record Handler =
  tmpl :: Template
  pageData :: PageData

definition load_about :: "FS \<Rightarrow> error + About" where
  "load_about fsys = loadJSON fsys ''data/about.json'' (unmarshal_About zero_About)"

definition load_projects :: "FS \<Rightarrow> error + Project list" where
  "load_projects fsys =
     loadJSON fsys ''data/projects.json''
       (unmarshal_slice unmarshal_Project zero_Project ''[]handler.Project'' [])"

definition load_interests :: "FS \<Rightarrow> error + Interest list" where
  "load_interests fsys =
     loadJSON fsys ''data/interests.json''
       (unmarshal_slice unmarshal_Interest zero_Interest ''[]handler.Interest'' [])"

definition load_skills :: "FS \<Rightarrow> error + string list" where
  "load_skills fsys =
     loadJSON fsys ''data/skills.json'' (unmarshal_slice unmarshal_string [] ''[]string'' [])"

definition load_experience :: "FS \<Rightarrow> error + Experience list" where
  "load_experience fsys =
     loadJSON fsys ''data/experience.json''
       (unmarshal_slice unmarshal_Experience zero_Experience ''[]handler.Experience'' [])"

definition New :: "(FS \<Rightarrow> string \<Rightarrow> error + Template) \<Rightarrow> FS \<Rightarrow> error + Handler" where
  "New ParseFS fsys =
     (case ParseFS fsys ''templates/*.html'' of
        Inl err \<Rightarrow> Inl (Errorf ''parse templates'' err)
      | Inr t \<Rightarrow>
     (case load_about fsys of
        Inl err \<Rightarrow> Inl (Errorf ''load about.json'' err)
      | Inr about \<Rightarrow>
     (case load_projects fsys of
        Inl err \<Rightarrow> Inl (Errorf ''load projects.json'' err)
      | Inr projects \<Rightarrow>
     (case load_interests fsys of
        Inl err \<Rightarrow> Inl (Errorf ''load interests.json'' err)
      | Inr interests \<Rightarrow>
     (case load_skills fsys of
        Inl err \<Rightarrow> Inl (Errorf ''load skills.json'' err)
      | Inr skills \<Rightarrow>
     (case load_experience fsys of
        Inl err \<Rightarrow> Inl (Errorf ''load experience.json'' err)
      | Inr experience \<Rightarrow>
          Inr \<lparr>tmpl = t,
               pageData = \<lparr>PageData_About = about, PageData_Projects = projects,
                 PageData_Interests = interests, PageData_Skills = skills,
                 PageData_Experience = experience\<rparr>\<rparr>))))))"

section \<open>net/http: the response a handler writes to\<close>

text \<open>
  What the server's \<^verbatim>\<open>http.ResponseWriter\<close> keeps of a handler's calls: the header
  map the handler edits, whether the status line has been written and with which code,
  the header map as it stood at that moment (later edits are not sent), the
  informational codes sent before it, and the body bytes accepted.

  Not modelled: the connection (write errors, hijacking), \<^verbatim>\<open>Content-Length\<close>
  accounting, content sniffing, the suppression of the body of a \<^verbatim>\<open>HEAD\<close> request,
  the canonical spelling of header keys (every key below is written in it), and the
  diagnostics the server itself logs.
\<close>

record response =
  handlerHeader :: "(string \<times> string) list"
  wroteHeader :: bool
  resp_status :: int
  sentHeader :: "(string \<times> string) list"
  informational :: "int list"
  body :: string

definition newResponse :: response where
  "newResponse = \<lparr>handlerHeader = [], wroteHeader = False, resp_status = 0, sentHeader = [],
     informational = [], body = []\<rparr>"

text \<open>
  \<^verbatim>\<open>WriteHeader\<close>: ignored once the header is written (the server then logs a line
  about the superfluous call, which is not modelled); a code outside 100..999 panics
  (\<open>None\<close>); an informational code other than 101 is sent at once and the final header
  is still to come; any other code is the response's status.
\<close>

definition response_WriteHeader :: "int \<Rightarrow> response \<Rightarrow> response option" where
  "response_WriteHeader code w =
     (if wroteHeader w then Some w
      else if code < 100 \<or> 999 < code then None
      else if 100 \<le> code \<and> code \<le> 199 \<and> code \<noteq> 101 then
        Some (w\<lparr>informational := informational w @ [code]\<rparr>)
      else Some (w\<lparr>wroteHeader := True, resp_status := code, sentHeader := handlerHeader w\<rparr>))"

definition bodyAllowedForStatus :: "int \<Rightarrow> bool" where
  "bodyAllowedForStatus st =
     (if 100 \<le> st \<and> st \<le> 199 then False
      else if st = 204 then False
      else if st = 304 then False
      else True)"

text \<open>\<^verbatim>\<open>Write\<close>: the first write sends the header with status 200 if none was sent.\<close>

definition response_Write :: "string \<Rightarrow> response \<Rightarrow> response" where
  "response_Write data w =
     (let w' = (if wroteHeader w then w
                else w\<lparr>wroteHeader := True, resp_status := 200, sentHeader := handlerHeader w\<rparr>)
      in if bodyAllowedForStatus (resp_status w') then w'\<lparr>body := body w' @ data\<rparr> else w')"


text \<open>
  The interface \<^verbatim>\<open>http.ResponseWriter\<close>, as the methods a handler calls on a writer
  of type \<open>'w\<close>: \<^verbatim>\<open>Header().Set\<close>, \<^verbatim>\<open>Header().Del\<close>, \<^verbatim>\<open>Write\<close>,
  \<^verbatim>\<open>WriteHeader\<close>.
\<close>

record 'w http_ResponseWriter =
  Header_Set :: "string \<Rightarrow> string \<Rightarrow> 'w \<Rightarrow> 'w"
  Header_Del :: "string \<Rightarrow> 'w \<Rightarrow> 'w"
  Write :: "string \<Rightarrow> 'w \<Rightarrow> 'w"
  WriteHeader :: "int \<Rightarrow> 'w \<Rightarrow> 'w option"

definition response_ops :: "response http_ResponseWriter" where
  "response_ops =
     \<lparr>Header_Set = (\<lambda>k v w. w\<lparr>handlerHeader := AList.update k v (handlerHeader w)\<rparr>),
      Header_Del = (\<lambda>k w. w\<lparr>handlerHeader := AList.delete k (handlerHeader w)\<rparr>),
      Write = response_Write,
      WriteHeader = response_WriteHeader\<rparr>"

text \<open>
  \<^verbatim>\<open>http.Error\<close>: drop \<^verbatim>\<open>Content-Length\<close>, set the content type of the message,
  write the header with the code, print the message and a newline.
\<close>

definition http_Error :: "'w http_ResponseWriter \<Rightarrow> 'w \<Rightarrow> string \<Rightarrow> int \<Rightarrow> 'w option" where
  "http_Error ops w err code =
     (let w1 = Header_Del ops ''Content-Length'' w;
          w2 = Header_Set ops ''Content-Type'' ''text/plain; charset=utf-8'' w1;
          w3 = Header_Set ops ''X-Content-Type-Options'' ''nosniff'' w2
      in case WriteHeader ops code w3 of
           None \<Rightarrow> None
         | Some w4 \<Rightarrow> Some (Write ops (err @ [CHR 0x0A]) w4))"

section \<open>The process log and the clock\<close>

text \<open>
  A call \<^verbatim>\<open>log.Printf(format, args...)\<close> is recorded as its format and its arguments;
  the rendering of the line (the date prefix, the quoting of \<^verbatim>\<open>%q\<close>) is the
  library's and is a function of them. The world a request runs in is the log so far and
  the reading of the clock, in nanoseconds. \<open>stdlog\<close> holds the records of the
  program's own calls of \<^verbatim>\<open>log.Printf\<close>, in order. The lines that \<^verbatim>\<open>net/http\<close>
  writes to the same logger on its own account are not in it: the server reports so a
  call of \<^verbatim>\<open>WriteHeader\<close> on a response whose header is already written.
\<close>

datatype arg = ArgString string | ArgInt int | ArgDuration int | ArgError error

datatype log_entry = Printf string "arg list"

record world =
  stdlog :: "log_entry list"
  clock :: int

section \<open>net/http: the request and its form\<close>

text \<open>
  The fields of \<^verbatim>\<open>*http.Request\<close> the program reads. \<open>MediaType\<close> is what
  \<^verbatim>\<open>mime.ParseMediaType\<close> returns for the \<^verbatim>\<open>Content-Type\<close> header (for
  \<^verbatim>\<open>application/octet-stream\<close> when the header is empty): the media type and the
  error, if any. The request reaches the handler with its form not parsed yet.
\<close>

record Request =
  Method :: string
  URL_Path :: string
  URL_RawQuery :: string
  MediaType :: "string \<times> error option"
  Body :: string

type_synonym Values = "(string \<times> string) list"

definition Values_get :: "Values \<Rightarrow> string \<Rightarrow> string list" where
  "Values_get m key = map snd (filter (\<lambda>kv. fst kv = key) m)"

definition ishex :: "char \<Rightarrow> bool" where
  "ishex c = (hexval c \<noteq> None)"

text \<open>\<^verbatim>\<open>url.QueryUnescape\<close>: percent escapes to bytes, plus to space.\<close>

fun QueryUnescape :: "string \<Rightarrow> error + string" where
  "QueryUnescape [] = Inr []"
| "QueryUnescape (c # cs) =
     (if c = CHR ''%'' then
        (case cs of
           a # b # rest \<Rightarrow>
             if ishex a \<and> ishex b then
               and_then (QueryUnescape rest)
                 (\<lambda>s. Inr (char_of (the (hexval a) * 16 + the (hexval b)) # s))
             else Inl (EscapeError (take 3 (c # cs)))
         | _ \<Rightarrow> Inl (EscapeError (take 3 (c # cs))))
      else if c = CHR ''+'' then and_then (QueryUnescape cs) (\<lambda>s. Inr (CHR '' '' # s))
      else and_then (QueryUnescape cs) (\<lambda>s. Inr (c # s)))"

text \<open>\<^verbatim>\<open>strings.Cut\<close>: the text before and after the first separator.\<close>

fun Cut :: "string \<Rightarrow> char \<Rightarrow> string \<times> string" where
  "Cut [] sep = ([], [])"
| "Cut (c # cs) sep =
     (if c = sep then ([], cs)
      else (case Cut cs sep of (before, after) \<Rightarrow> (c # before, after)))"

text \<open>The pieces of a query between its \<^verbatim>\<open>&\<close> separators, in order.\<close>

fun pieces :: "string \<Rightarrow> string list" where
  "pieces [] = [[]]"
| "pieces (c # cs) =
     (if c = CHR ''&'' then [] # pieces cs
      else (case pieces cs of [] \<Rightarrow> [[c]] | p # ps \<Rightarrow> (c # p) # ps))"

text \<open>
  \<^verbatim>\<open>url.ParseQuery\<close>: a query of more than 10000 pieces (one more than it has
  \<^verbatim>\<open>&\<close> separators) is refused with no pair read. Otherwise its loop cuts the query
  at each \<^verbatim>\<open>&\<close> and handles the piece before it. A piece with a semicolon sets the
  error; an empty piece is skipped; a bad escape in the key or the value sets the error if
  none is set; in each of these cases no pair is added. The result is the pairs in order
  and the error.
\<close>

fun parsePieces :: "Values \<Rightarrow> error option \<Rightarrow> string list \<Rightarrow> Values \<times> error option" where
  "parsePieces m err [] = (m, err)"
| "parsePieces m err (piece # rest) =
     (if CHR '';'' \<in> set piece then parsePieces m (Some ErrSemicolon) rest
      else if piece = [] then parsePieces m err rest
      else
        (case QueryUnescape (fst (Cut piece (CHR ''=''))) of
           Inl err1 \<Rightarrow> parsePieces m (if err = None then Some err1 else err) rest
         | Inr key \<Rightarrow>
             (case QueryUnescape (snd (Cut piece (CHR ''=''))) of
                Inl err1 \<Rightarrow> parsePieces m (if err = None then Some err1 else err) rest
              | Inr val \<Rightarrow> parsePieces (m @ [(key, val)]) err rest)))"

definition ParseQuery :: "string \<Rightarrow> Values \<times> error option" where
  "ParseQuery query =
     (if 10000 < length (pieces query) then ([], Some ErrTooManyParams)
      else parsePieces [] None (pieces query))"

text \<open>
  \<^verbatim>\<open>parsePostForm\<close>: the body is read only when the media type is the form encoding;
  a body over 10 MB is an error; the error of the media type, if any, comes first.
\<close>

definition parsePostForm :: "Request \<Rightarrow> Values \<times> error option" where
  "parsePostForm r =
     (case MediaType r of (ct, err) \<Rightarrow>
        if ct = ''application/x-www-form-urlencoded'' then
          (if 10 * 2 ^ 20 < length (Body r) then ([], Some ErrPostTooLarge)
           else (case ParseQuery (Body r) of (vs, e) \<Rightarrow> (vs, if err = None then e else err)))
        else ([], err))"

text \<open>
  \<^verbatim>\<open>r.ParseForm()\<close>: the form is the pairs of the body, for a POST, PUT or PATCH,
  followed by those of the URL query; the error is the body's, or else the query's.
\<close>

definition ParseForm :: "Request \<Rightarrow> Values \<times> error option" where
  "ParseForm r =
     (case (if Method r = ''POST'' \<or> Method r = ''PUT'' \<or> Method r = ''PATCH''
            then parsePostForm r else ([], None)) of
        (postForm, err) \<Rightarrow>
          (case ParseQuery (URL_RawQuery r) of
             (newValues, e) \<Rightarrow> (postForm @ newValues, if err = None then e else err)))"

text \<open>\<^verbatim>\<open>r.FormValue(key)\<close> on a parsed form: the first value of the key, or empty.\<close>

definition FormValue :: "Values \<Rightarrow> string \<Rightarrow> string" where
  "FormValue form key = (case Values_get form key of [] \<Rightarrow> [] | v # vs \<Rightarrow> v)"

section \<open>The handler's methods\<close>

text \<open>
  Each method takes the writer's interface and the writer, the request and the world, and
  returns the writer and the world after it, or \<open>None\<close> if it panics. No method assigns
  to the handler, which is passed here as a value; the section on the methods with their
  receiver gives them with the memory behind the pointer.
\<close>

definition execute ::
  "'w http_ResponseWriter \<Rightarrow> Handler \<Rightarrow> 'w \<Rightarrow> string \<Rightarrow> PageData \<Rightarrow> world \<Rightarrow> ('w \<times> world) option" where
  "execute ops h w name data wd =
     (case tmpl h name data of (chunks, result) \<Rightarrow>
        (let w' = fold (Write ops) chunks w in
         case result of
           None \<Rightarrow> Some (w', wd)
         | Some err \<Rightarrow>
             (let wd' = wd\<lparr>stdlog := stdlog wd @
                    [Printf ''template %q error: %v'' [ArgString name, ArgError err]]\<rparr>
              in case http_Error ops w' ''internal server error'' 500 of
                   None \<Rightarrow> None
                 | Some w'' \<Rightarrow> Some (w'', wd'))))"

definition Index ::
  "'w http_ResponseWriter \<Rightarrow> Handler \<Rightarrow> 'w \<Rightarrow> Request \<Rightarrow> world \<Rightarrow> ('w \<times> world) option" where
  "Index ops h w r wd = execute ops h w ''base'' (pageData h) wd"

definition About ::
  "'w http_ResponseWriter \<Rightarrow> Handler \<Rightarrow> 'w \<Rightarrow> Request \<Rightarrow> world \<Rightarrow> ('w \<times> world) option" where
  "About ops h w r wd = execute ops h w ''about'' (pageData h) wd"

definition Projects ::
  "'w http_ResponseWriter \<Rightarrow> Handler \<Rightarrow> 'w \<Rightarrow> Request \<Rightarrow> world \<Rightarrow> ('w \<times> world) option" where
  "Projects ops h w r wd = execute ops h w ''projects'' (pageData h) wd"

definition Interests ::
  "'w http_ResponseWriter \<Rightarrow> Handler \<Rightarrow> 'w \<Rightarrow> Request \<Rightarrow> world \<Rightarrow> ('w \<times> world) option" where
  "Interests ops h w r wd = execute ops h w ''interests'' (pageData h) wd"

definition successFragment :: string where
  \<open>successFragment =
     ''<div class="contact-success"><p>Thanks for reaching out '' @
     [CHR 0xE2, CHR 0x80, CHR 0x94] @
     '' I'' @ [CHR 0x27] @ ''ll be in touch soon.</p></div>''\<close>

definition Contact ::
  "'w http_ResponseWriter \<Rightarrow> Handler \<Rightarrow> 'w \<Rightarrow> Request \<Rightarrow> world \<Rightarrow> ('w \<times> world) option" where
  "Contact ops h w r wd =
     (case ParseForm r of
        (form, Some err) \<Rightarrow>
          (case http_Error ops w ''bad request'' 400 of
             None \<Rightarrow> None
           | Some w' \<Rightarrow> Some (w', wd))
      | (form, None) \<Rightarrow>
          (let name = FormValue form ''name'';
               email = FormValue form ''email'';
               message = FormValue form ''message'';
               wd' = wd\<lparr>stdlog := stdlog wd @
                 [Printf ''contact form submission: name=%q email=%q message_len=%d''
                    [ArgString name, ArgString email, ArgInt (int (length message))]]\<rparr>;
               w1 = Header_Set ops ''Content-Type'' ''text/html; charset=utf-8'' w
           in Some (Write ops successFragment w1, wd')))"

definition Health ::
  "'w http_ResponseWriter \<Rightarrow> Handler \<Rightarrow> 'w \<Rightarrow> Request \<Rightarrow> world \<Rightarrow> ('w \<times> world) option" where
  "Health ops h w r wd =
     (case WriteHeader ops 200 w of
        None \<Rightarrow> None
      | Some w' \<Rightarrow> Some (w', wd))"

section \<open>The server's logging wrapper (cmd/server)\<close>

record responseWriter =
  ResponseWriter :: response
  status :: int

definition responseWriter_WriteHeader :: "int \<Rightarrow> responseWriter \<Rightarrow> responseWriter option" where
  "responseWriter_WriteHeader code rw =
     (let rw' = rw\<lparr>status := code\<rparr> in
      case response_WriteHeader code (ResponseWriter rw') of
        None \<Rightarrow> None
      | Some w' \<Rightarrow> Some (rw'\<lparr>ResponseWriter := w'\<rparr>))"

text \<open>
  The other methods of the wrapper are those of the writer it embeds.
\<close>

definition responseWriter_ops :: "responseWriter http_ResponseWriter" where
  "responseWriter_ops =
     \<lparr>Header_Set = (\<lambda>k v rw. rw\<lparr>ResponseWriter := Header_Set response_ops k v (ResponseWriter rw)\<rparr>),
      Header_Del = (\<lambda>k rw. rw\<lparr>ResponseWriter := Header_Del response_ops k (ResponseWriter rw)\<rparr>),
      Write = (\<lambda>data rw. rw\<lparr>ResponseWriter := Write response_ops data (ResponseWriter rw)\<rparr>),
      WriteHeader = responseWriter_WriteHeader\<rparr>"

text \<open>
  \<open>loggingMiddleware next\<close>: read the clock, wrap the writer with status 200, run the
  inner handler, then log the method, the path, the wrapper's status and the time since
  the start. If the inner handler panics nothing is logged.
\<close>

definition loggingMiddleware ::
  "(responseWriter \<Rightarrow> Request \<Rightarrow> world \<Rightarrow> (responseWriter \<times> world) option) \<Rightarrow>
   response \<Rightarrow> Request \<Rightarrow> world \<Rightarrow> (response \<times> world) option" where
  "loggingMiddleware next w r wd =
     (let start = clock wd;
          rw = \<lparr>ResponseWriter = w, status = 200\<rparr>
      in case next rw r wd of
           None \<Rightarrow> None
         | Some (rw', wd') \<Rightarrow>
             Some (ResponseWriter rw',
               wd'\<lparr>stdlog := stdlog wd' @
                 [Printf ''%s %s %d %s''
                    [ArgString (Method r), ArgString (URL_Path r), ArgInt (status rw'),
                     ArgDuration (clock wd' - start)]]\<rparr>))"

section \<open>Vocabulary of the statements\<close>










text \<open>
  An inner handler of the middleware, seen from outside: a handler acts on the writer it
  is given only by calling the interface's methods, so its run on a request is the
  sequence of those calls, with its own log lines and the time it takes in between.
\<close>

datatype call =
    CallHeaderSet string string
  | CallHeaderDel string
  | CallWrite string
  | CallWriteHeader int
  | CallLogPrintf string "arg list"
  | CallElapse int

fun perform :: "'w http_ResponseWriter \<Rightarrow> call \<Rightarrow> 'w \<times> world \<Rightarrow> ('w \<times> world) option" where
  "perform ops (CallHeaderSet k v) (w, wd) = Some (Header_Set ops k v w, wd)"
| "perform ops (CallHeaderDel k) (w, wd) = Some (Header_Del ops k w, wd)"
| "perform ops (CallWrite data) (w, wd) = Some (Write ops data w, wd)"
| "perform ops (CallWriteHeader code) (w, wd) =
     (case WriteHeader ops code w of None \<Rightarrow> None | Some w' \<Rightarrow> Some (w', wd))"
| "perform ops (CallLogPrintf format args) (w, wd) =
     Some (w, wd\<lparr>stdlog := stdlog wd @ [Printf format args]\<rparr>)"
| "perform ops (CallElapse d) (w, wd) = Some (w, wd\<lparr>clock := clock wd + d\<rparr>)"

fun run_calls :: "'w http_ResponseWriter \<Rightarrow> call list \<Rightarrow> 'w \<times> world \<Rightarrow> ('w \<times> world) option" where
  "run_calls ops [] s = Some s"
| "run_calls ops (c # cs) s =
     (case perform ops c s of None \<Rightarrow> None | Some s' \<Rightarrow> run_calls ops cs s')"

definition scripted ::
  "(Request \<Rightarrow> call list) \<Rightarrow> responseWriter \<Rightarrow> Request \<Rightarrow> world \<Rightarrow>
   (responseWriter \<times> world) option" where
  "scripted script rw r wd = run_calls responseWriter_ops (script r) (rw, wd)"




text \<open>
  The server (\<^verbatim>\<open>main\<close> in cmd/server): \<open>New\<close> is called once; if it fails the
  process logs the error and exits before serving; otherwise every request is handled by
  \<open>loggingMiddleware\<close> around the method its route names, on a new response. The
  server between requests is the handler built at startup and the world. The routing of
  a request to a method by the mux is not modelled: a request comes with the method it is
  routed to. A panic is recovered by the server and leaves the world as it was.
\<close>

datatype operation = OpIndex | OpAbout | OpProjects | OpInterests | OpContact | OpHealth

definition call_method ::
  "'w http_ResponseWriter \<Rightarrow> operation \<Rightarrow> Handler \<Rightarrow> 'w \<Rightarrow> Request \<Rightarrow> world \<Rightarrow>
   ('w \<times> world) option" where
  "call_method ops op =
     (case op of
        OpIndex \<Rightarrow> Index ops
      | OpAbout \<Rightarrow> About ops
      | OpProjects \<Rightarrow> Projects ops
      | OpInterests \<Rightarrow> Interests ops
      | OpContact \<Rightarrow> Contact ops
      | OpHealth \<Rightarrow> Health ops)"

record server =
  handler :: Handler
  server_world :: world

definition serve :: "server \<Rightarrow> operation \<times> Request \<Rightarrow> server" where
  "serve s req =
     (case loggingMiddleware (call_method responseWriter_ops (fst req) (handler s))
             newResponse (snd req) (server_world s) of
        None \<Rightarrow> s
      | Some (w', wd') \<Rightarrow> s\<lparr>server_world := wd'\<rparr>)"

definition main ::
  "(FS \<Rightarrow> string \<Rightarrow> error + Template) \<Rightarrow> FS \<Rightarrow> world \<Rightarrow> (operation \<times> Request) list \<Rightarrow>
   error + server" where
  "main ParseFS fsys wd reqs =
     (case New ParseFS fsys of
        Inl err \<Rightarrow> Inl (Errorf ''failed to initialize handler'' err)
      | Inr h \<Rightarrow> Inr (foldl serve \<lparr>handler = h, server_world = wd\<rparr> reqs))"

text \<open>
  The methods of the handler package, as such runs: the calls each makes on its writer and
  on the log, in the order of the source.
\<close>

definition Error_calls :: "string \<Rightarrow> int \<Rightarrow> call list" where
  "Error_calls err code =
     [CallHeaderDel ''Content-Length'',
      CallHeaderSet ''Content-Type'' ''text/plain; charset=utf-8'',
      CallHeaderSet ''X-Content-Type-Options'' ''nosniff'',
      CallWriteHeader code, CallWrite (err @ [CHR 0x0A])]"

definition execute_calls :: "Handler \<Rightarrow> string \<Rightarrow> PageData \<Rightarrow> call list" where
  "execute_calls h name data =
     (case tmpl h name data of (chunks, result) \<Rightarrow>
        map CallWrite chunks @
        (case result of
           None \<Rightarrow> []
         | Some err \<Rightarrow>
             CallLogPrintf ''template %q error: %v'' [ArgString name, ArgError err]
               # Error_calls ''internal server error'' 500))"

definition Contact_calls :: "Request \<Rightarrow> call list" where
  "Contact_calls r =
     (case ParseForm r of
        (form, Some err) \<Rightarrow> Error_calls ''bad request'' 400
      | (form, None) \<Rightarrow>
          [CallLogPrintf ''contact form submission: name=%q email=%q message_len=%d''
             [ArgString (FormValue form ''name''), ArgString (FormValue form ''email''),
              ArgInt (int (length (FormValue form ''message'')))],
           CallHeaderSet ''Content-Type'' ''text/html; charset=utf-8'',
           CallWrite successFragment])"

definition method_calls :: "operation \<Rightarrow> Handler \<Rightarrow> Request \<Rightarrow> call list" where
  "method_calls op h r =
     (case op of
        OpIndex \<Rightarrow> execute_calls h ''base'' (pageData h)
      | OpAbout \<Rightarrow> execute_calls h ''about'' (pageData h)
      | OpProjects \<Rightarrow> execute_calls h ''projects'' (pageData h)
      | OpInterests \<Rightarrow> execute_calls h ''interests'' (pageData h)
      | OpContact \<Rightarrow> Contact_calls r
      | OpHealth \<Rightarrow> [CallWriteHeader 200])"

section \<open>The methods with their receiver\<close>











section \<open>Example inputs\<close>

text \<open>A file tree with the five fixtures, each of the documented shape.\<close>

definition about_json :: string where
  \<open>about_json = ''{"name": "Ada", "tagline": "T", "bio": "B", "location": "L", "availability": true, "years_of_experience": 12, "email": "a@x.com", "github": "g", "linkedin": "l", "x": "x", "profile_photo": "p.png"}''\<close>

definition projects_json :: string where
  \<open>projects_json = ''[{"title": "P", "description": "D", "tags": ["go", "htmx"], "link": "u", "image": "i"}]''\<close>

definition interests_json :: string where
  \<open>interests_json = ''[{"emoji": "e", "label": "l", "description": "d"}]''\<close>

definition skills_json :: string where
  \<open>skills_json = ''["Go", "SQL"]''\<close>

definition experience_json :: string where
  \<open>experience_json = ''[{"role": "r", "company": "c", "company_url": "u", "logo": "l", "start_date": "s", "end_date": "e", "description": ["a"], "type": "work"}]''\<close>

definition example_fs :: FS where
  "example_fs =
     [''data/about.json'' \<mapsto> about_json,
      ''data/projects.json'' \<mapsto> projects_json,
      ''data/interests.json'' \<mapsto> interests_json,
      ''data/skills.json'' \<mapsto> skills_json,
      ''data/experience.json'' \<mapsto> experience_json]"


text \<open>
  A template set: \<^verbatim>\<open>base\<close> writes the profile's name between two tags; \<^verbatim>\<open>about\<close>
  writes one tag and then fails; any other name is not defined and fails before writing.
\<close>

definition example_tmpl :: Template where
  "example_tmpl name data =
     (if name = ''base'' then ([''<h1>'', About_Name (PageData_About data), ''</h1>''], None)
      else if name = ''about'' then ([''<section>''], Some (LibraryError ''about: no such field''))
      else ([], Some (LibraryError ''no such template'')))"

definition example_ParseFS :: "FS \<Rightarrow> string \<Rightarrow> error + Template" where
  "example_ParseFS fsys pattern = Inr example_tmpl"

definition example_about :: About where
  "example_about = \<lparr>About_Name = ''Ada'', About_Tagline = ''T'', About_Bio = ''B'',
     About_Location = ''L'', About_Availability = True, About_YearsOfExperience = 12,
     About_Email = ''a@x.com'', About_GitHub = ''g'', About_LinkedIn = ''l'', About_X = ''x'',
     About_ProfilePhoto = ''p.png''\<rparr>"

definition example_pageData :: PageData where
  "example_pageData =
     \<lparr>PageData_About = example_about,
      PageData_Projects = [\<lparr>Project_Title = ''P'', Project_Description = ''D'',
        Project_Tags = [''go'', ''htmx''], Project_Link = ''u'', Project_Image = ''i''\<rparr>],
      PageData_Interests = [\<lparr>Interest_Emoji = ''e'', Interest_Label = ''l'',
        Interest_Description = ''d''\<rparr>],
      PageData_Skills = [''Go'', ''SQL''],
      PageData_Experience = [\<lparr>Experience_Role = ''r'', Experience_Company = ''c'',
        Experience_CompanyURL = ''u'', Experience_Logo = ''l'', Experience_StartDate = ''s'',
        Experience_EndDate = ''e'', Experience_Description = [''a''],
        Experience_Type = ''work''\<rparr>]\<rparr>"

definition example_handler :: Handler where
  "example_handler = \<lparr>tmpl = example_tmpl, pageData = example_pageData\<rparr>"

definition example_world :: world where
  "example_world = \<lparr>stdlog = [], clock = 0\<rparr>"

text \<open>The example tree without \<^verbatim>\<open>projects.json\<close>, and with the shortened \<^verbatim>\<open>about.json\<close>.\<close>

definition fs_missing_projects :: FS where
  "fs_missing_projects = example_fs(''data/projects.json'' := None)"






text \<open>Requests: the form of the spec's example, a form with a bad escape, a page load.\<close>

definition contact_request :: Request where
  "contact_request =
     \<lparr>Method = ''POST'', URL_Path = ''/contact'', URL_RawQuery = [],
      MediaType = (''application/x-www-form-urlencoded'', None),
      Body = ''name=Jane&email=jane@x.com&message=hi''\<rparr>"

definition contact_request_other_message :: Request where
  "contact_request_other_message = contact_request\<lparr>Body := ''message=no&email=jane@x.com&name=Jane''\<rparr>"

definition bad_contact_request :: Request where
  "bad_contact_request = contact_request\<lparr>Body := ''name=%zz''\<rparr>"

text \<open>The spec's example form, posted to a URL whose query has a bad escape.\<close>

definition contact_request_bad_query :: Request where
  "contact_request_bad_query = contact_request\<lparr>URL_RawQuery := ''ref=50%''\<rparr>"

text \<open>A submission sent as JSON, with a body the form parser itself rejects.\<close>

definition json_contact_request :: Request where
  \<open>json_contact_request =
     \<lparr>Method = ''POST'', URL_Path = ''/contact'', URL_RawQuery = [],
      MediaType = (''application/json'', None), Body = ''{"note": "100%"}''\<rparr>\<close>

definition page_request :: Request where
  "page_request =
     \<lparr>Method = ''GET'', URL_Path = ''/partials/about'', URL_RawQuery = [],
      MediaType = (''application/octet-stream'', None), Body = []\<rparr>"


definition projects_request :: Request where
  "projects_request = page_request\<lparr>URL_Path := ''/partials/projects''\<rparr>"



section \<open>Evaluating the examples\<close>

lemmas scan_defs = scan_step_def beginValue_def beginString_def pushParseState_def
  maxNestingDepth_def isSpace_def endString_def endValue_def endEmpty_def endLiteral_def
  after0_def afterESign_def isDigit_def inRange_def unescape_def hexval_def atEOF_def

lemmas unmarshal_defs = unmarshal_struct_def unmarshal_slice_def unmarshal_string_def
  unmarshal_bool_def unmarshal_int_def ParseInt_def digits_def isDigit_def inRange_def
  lookupField_def and_then_def typeError_def

lemma scan_about_json:
  "readValue stateBeginValue [] about_json =
     Inr (JObject [(''name'', JString ''Ada''), (''tagline'', JString ''T''),
       (''bio'', JString ''B''), (''location'', JString ''L''), (''availability'', JBool True),
       (''years_of_experience'', JNumber ''12''), (''email'', JString ''a@x.com''),
       (''github'', JString ''g''), (''linkedin'', JString ''l''), (''x'', JString ''x''),
       (''profile_photo'', JString ''p.png'')], [])"
  by (simp add: about_json_def scan_defs)




lemma scan_skills_json:
  "readValue stateBeginValue [] skills_json = Inr (JArray [JString ''Go'', JString ''SQL''], [])"
  by (simp add: skills_json_def scan_defs)


lemma store_about:
  "unmarshal_About zero_About (JObject [(''name'', JString ''Ada''), (''tagline'', JString ''T''),
       (''bio'', JString ''B''), (''location'', JString ''L''), (''availability'', JBool True),
       (''years_of_experience'', JNumber ''12''), (''email'', JString ''a@x.com''),
       (''github'', JString ''g''), (''linkedin'', JString ''l''), (''x'', JString ''x''),
       (''profile_photo'', JString ''p.png'')]) = Inr example_about"
  by (simp add: unmarshal_About_def About_fields_def About_store_def unmarshal_defs
      zero_About_def example_about_def)




lemma store_skills:
  "unmarshal_slice unmarshal_string [] ty [] (JArray [JString ''Go'', JString ''SQL''])
     = Inr (PageData_Skills example_pageData)"
  by (simp add: unmarshal_defs example_pageData_def)


lemma loadJSON_scanned:
  assumes "fsys path = Some content" and "readValue stateBeginValue [] content = Inr (v, rest)"
  shows "loadJSON fsys path unmarshal = unmarshal v"
  using assms by (simp add: loadJSON_def Open_def Decode_def)

lemma loadJSON_missing:
  assumes "fsys path = None"
  shows "loadJSON fsys path unmarshal = Inl (ErrNotExist path)"
  using assms by (simp add: loadJSON_def Open_def)

lemma example_fs_files:
  "example_fs ''data/about.json'' = Some about_json"
  "example_fs ''data/projects.json'' = Some projects_json"
  "example_fs ''data/interests.json'' = Some interests_json"
  "example_fs ''data/skills.json'' = Some skills_json"
  "example_fs ''data/experience.json'' = Some experience_json"
  by (simp_all add: example_fs_def)




section \<open>Loading the fixtures\<close>

subsection \<open>Bytes after the first value\<close>

lemma atEOF_number: "atEOF st ps = Inr v \<Longrightarrow> \<exists>lit. v = JNumber lit"
  by (auto simp: atEOF_def split: list.splits step.splits)

lemma readValue_append:
  assumes "readValue st ps s = Inr (v, rest)" and "\<forall>lit. v \<noteq> JNumber lit"
  shows "readValue st ps (s @ t) = Inr (v, rest @ t)"
  using assms
proof (induction s arbitrary: st ps)
  case Nil
  then show ?case using atEOF_number [of st ps] by (auto split: sum.splits)
next
  case (Cons c cs)
  then show ?case by (cases "scan_step st ps c") auto
qed

text \<open>
  C10: \<open>loadJSON\<close> decodes only the first JSON value of a fixture file. When the content
  of the file starts with a complete value that is not a bare number (a fixture is an
  object or an array), the same content followed by any bytes at all loads, and what is
  stored is that first value: the trailing bytes are not rejected as malformed.
\<close>

theorem loadJSON_first_value_only:
  assumes "fsys path = Some content"
    and "readValue stateBeginValue [] content = Inr (v, rest)"
    and "\<forall>lit. v \<noteq> JNumber lit"
  shows "loadJSON (fsys(path \<mapsto> content @ trailing)) path unmarshal = unmarshal v"
  using readValue_append [OF assms(2,3), of trailing]
  by (simp add: loadJSON_def Open_def Decode_def)

theorem loadJSON_first_value_only_witness:
  \<open>example_fs ''data/skills.json'' = Some skills_json \<and>
   readValue stateBeginValue [] skills_json = Inr (JArray [JString ''Go'', JString ''SQL''], []) \<and>
   load_skills (example_fs(''data/skills.json'' \<mapsto> skills_json @ ''] "not json'')) =
     Inr [''Go'', ''SQL'']\<close>
proof -
  have "\<forall>lit. JArray [JString ''Go'', JString ''SQL''] \<noteq> JNumber lit"
    by simp
  then show ?thesis
    by (simp add: load_skills_def example_fs_files scan_skills_json store_skills
        example_pageData_def
        loadJSON_first_value_only [of example_fs "''data/skills.json''",
          OF example_fs_files(4) scan_skills_json])
qed

subsection \<open>A fixture that does not load\<close>

text \<open>
  C6: if opening or decoding one of the five fixture files fails, \<open>New\<close> produces no
  handler, whatever the other files hold, and the process serves nothing; and, \<open>New\<close>
  having parsed the templates and so reached the loads, the error it returns is the cause
  wrapped with \<open>load\<close> and the name of a file whose load failed with that cause.
\<close>

theorem New_load_failure:
  assumes "isl (load_about fsys) \<or> isl (load_projects fsys) \<or> isl (load_interests fsys)
      \<or> isl (load_skills fsys) \<or> isl (load_experience fsys)"
  shows "(\<forall>h. New ParseFS fsys \<noteq> Inr h) \<and>
    (\<forall>wd reqs s. main ParseFS fsys wd reqs \<noteq> Inr s) \<and>
    (\<forall>t. ParseFS fsys ''templates/*.html'' = Inr t \<longrightarrow>
      (\<exists>name err. New ParseFS fsys = Inl (Errorf (''load '' @ name) err) \<and>
         ((name = ''about.json'' \<and> load_about fsys = Inl err)
        \<or> (name = ''projects.json'' \<and> load_projects fsys = Inl err)
        \<or> (name = ''interests.json'' \<and> load_interests fsys = Inl err)
        \<or> (name = ''skills.json'' \<and> load_skills fsys = Inl err)
        \<or> (name = ''experience.json'' \<and> load_experience fsys = Inl err))))"
proof -
  have n: "(\<forall>h. New ParseFS fsys \<noteq> Inr h) \<and>
    (\<forall>t. ParseFS fsys ''templates/*.html'' = Inr t \<longrightarrow>
      (\<exists>name err. New ParseFS fsys = Inl (Errorf (''load '' @ name) err) \<and>
         ((name = ''about.json'' \<and> load_about fsys = Inl err)
        \<or> (name = ''projects.json'' \<and> load_projects fsys = Inl err)
        \<or> (name = ''interests.json'' \<and> load_interests fsys = Inl err)
        \<or> (name = ''skills.json'' \<and> load_skills fsys = Inl err)
        \<or> (name = ''experience.json'' \<and> load_experience fsys = Inl err))))"
    using assms unfolding New_def
    by (cases "ParseFS fsys ''templates/*.html''"; cases "load_about fsys";
        cases "load_projects fsys"; cases "load_interests fsys"; cases "load_skills fsys";
        cases "load_experience fsys") simp_all
  then have "main ParseFS fsys wd reqs \<noteq> Inr s" for wd reqs s
    by (cases "New ParseFS fsys") (simp_all add: main_def)
  with n show ?thesis by simp
qed

theorem New_load_failure_witness:
  "load_projects fs_missing_projects = Inl (ErrNotExist ''data/projects.json'') \<and>
   example_ParseFS fs_missing_projects ''templates/*.html'' = Inr example_tmpl \<and>
   (\<forall>h. New example_ParseFS fs_missing_projects \<noteq> Inr h) \<and>
   (\<forall>wd reqs s. main example_ParseFS fs_missing_projects wd reqs \<noteq> Inr s) \<and>
   (\<exists>name err.
      New example_ParseFS fs_missing_projects = Inl (Errorf (''load '' @ name) err) \<and>
      ((name = ''about.json'' \<and> load_about fs_missing_projects = Inl err)
       \<or> (name = ''projects.json'' \<and> load_projects fs_missing_projects = Inl err)
       \<or> (name = ''interests.json'' \<and> load_interests fs_missing_projects = Inl err)
       \<or> (name = ''skills.json'' \<and> load_skills fs_missing_projects = Inl err)
       \<or> (name = ''experience.json'' \<and> load_experience fs_missing_projects = Inl err))) \<and>
   New example_ParseFS fs_missing_projects =
     Inl (Errorf ''load projects.json'' (ErrNotExist ''data/projects.json''))"
proof -
  have p: "load_projects fs_missing_projects = Inl (ErrNotExist ''data/projects.json'')"
    by (simp add: load_projects_def fs_missing_projects_def loadJSON_missing)
  have f: "fs_missing_projects ''data/about.json'' = Some about_json"
    by (simp add: fs_missing_projects_def example_fs_def)
  have a: "load_about fs_missing_projects = Inr example_about"
    unfolding load_about_def
    by (simp add: loadJSON_scanned [of fs_missing_projects "''data/about.json''",
          OF f scan_about_json] store_about)
  have t: "example_ParseFS fs_missing_projects ''templates/*.html'' = Inr example_tmpl"
    by (simp add: example_ParseFS_def)
  have h: "isl (load_about fs_missing_projects) \<or> isl (load_projects fs_missing_projects)
      \<or> isl (load_interests fs_missing_projects) \<or> isl (load_skills fs_missing_projects)
      \<or> isl (load_experience fs_missing_projects)"
    by (simp add: p)
  note th = New_load_failure [OF h, of example_ParseFS]
  note c1 = th [THEN conjunct1]
  note c3 = th [THEN conjunct2, THEN conjunct1]
  note c2 = th [THEN conjunct2, THEN conjunct2, rule_format, OF t]
  have n: "New example_ParseFS fs_missing_projects =
      Inl (Errorf ''load projects.json'' (ErrNotExist ''data/projects.json''))"
    by (simp add: New_def t a p)
  show ?thesis
    using p t c1 c3 c2 n by (intro conjI)
qed

subsection \<open>A fixture with a field left out\<close>








































section \<open>The contact form\<close>

lemmas form_defs = ParseForm_def parsePostForm_def ParseQuery_def FormValue_def Values_get_def
  ishex_def hexval_def inRange_def and_then_def

lemmas response_defs = response_ops_def response_Write_def response_WriteHeader_def
  bodyAllowedForStatus_def http_Error_def newResponse_def

lemma ParseForm_contact_request:
  "ParseForm contact_request =
     ([(''name'', ''Jane''), (''email'', ''jane@x.com''), (''message'', ''hi'')], None)"
  by (simp add: contact_request_def form_defs)

lemma ParseForm_contact_request_other_message:
  "ParseForm contact_request_other_message =
     ([(''message'', ''no''), (''email'', ''jane@x.com''), (''name'', ''Jane'')], None)"
  by (simp add: contact_request_other_message_def contact_request_def form_defs)

lemma ParseForm_bad_contact_request:
  "ParseForm bad_contact_request = ([], Some (EscapeError ''%zz''))"
  by (simp add: bad_contact_request_def contact_request_def form_defs)

lemma ParseQuery_example_body:
  "ParseQuery ''name=Jane&email=jane@x.com&message=hi'' =
     ([(''name'', ''Jane''), (''email'', ''jane@x.com''), (''message'', ''hi'')], None)"
  by (simp add: ParseQuery_def ishex_def hexval_def inRange_def and_then_def)

lemma ParseQuery_bad_query: "ParseQuery ''ref=50%'' = ([], Some (EscapeError ''%''))"
  by (simp add: ParseQuery_def ishex_def hexval_def inRange_def and_then_def)

lemma ParseQuery_empty: "ParseQuery [] = ([], None)"
  by (simp add: ParseQuery_def)

text \<open>
  C2, as the code has it: for every request whose form parses (\<open>ParseForm\<close> returns no
  error; a field that is absent reads as the empty string and nothing is validated),
  \<open>Contact\<close> on a new response writes status 200, the content type \<^verbatim>\<open>text/html\<close>
  (with the charset parameter), and a body that is exactly the fixed success fragment.
  The form of a POST parses when its body, declared as form data and of at most 10 MB,
  parses as form data and the query of its URL parses too.
\<close>

theorem Contact_success:
  "(ParseForm r = (form, None) \<longrightarrow>
      Contact response_ops h newResponse r wd =
        Some (\<lparr>handlerHeader = [(''Content-Type'', ''text/html; charset=utf-8'')],
                wroteHeader = True, resp_status = 200,
                sentHeader = [(''Content-Type'', ''text/html; charset=utf-8'')],
                informational = [], body = successFragment\<rparr>,
              wd\<lparr>stdlog := stdlog wd @
                [Printf ''contact form submission: name=%q email=%q message_len=%d''
                   [ArgString (FormValue form ''name''), ArgString (FormValue form ''email''),
                    ArgInt (int (length (FormValue form ''message'')))]]\<rparr>))
 \<and> (Method r = ''POST'' \<and> MediaType r = (''application/x-www-form-urlencoded'', None) \<and>
      length (Body r) \<le> 10 * 2 ^ 20 \<and> ParseQuery (Body r) = (vs, None) \<and>
      ParseQuery (URL_RawQuery r) = (qs, None) \<longrightarrow>
      ParseForm r = (vs @ qs, None))"
  by (simp add: Contact_def response_defs ParseForm_def parsePostForm_def)

theorem Contact_success_witness:
  "Method contact_request = ''POST'' \<and>
   MediaType contact_request = (''application/x-www-form-urlencoded'', None) \<and>
   length (Body contact_request) \<le> 10 * 2 ^ 20 \<and>
   ParseQuery (Body contact_request) =
     ([(''name'', ''Jane''), (''email'', ''jane@x.com''), (''message'', ''hi'')], None) \<and>
   ParseQuery (URL_RawQuery contact_request) = ([], None) \<and>
   ParseForm contact_request =
     ([(''name'', ''Jane''), (''email'', ''jane@x.com''), (''message'', ''hi'')], None) \<and>
   Contact response_ops example_handler newResponse contact_request example_world =
      Some (\<lparr>handlerHeader = [(''Content-Type'', ''text/html; charset=utf-8'')],
              wroteHeader = True, resp_status = 200,
              sentHeader = [(''Content-Type'', ''text/html; charset=utf-8'')],
              informational = [], body = successFragment\<rparr>,
            \<lparr>stdlog = [Printf ''contact form submission: name=%q email=%q message_len=%d''
                 [ArgString ''Jane'', ArgString ''jane@x.com'', ArgInt 2]], clock = 0\<rparr>)"
proof -
  have r: "Method contact_request = ''POST''"
    "MediaType contact_request = (''application/x-www-form-urlencoded'', None)"
    "length (Body contact_request) \<le> 10 * 2 ^ 20"
    "ParseQuery (Body contact_request) =
       ([(''name'', ''Jane''), (''email'', ''jane@x.com''), (''message'', ''hi'')], None)"
    "ParseQuery (URL_RawQuery contact_request) = ([], None)"
    by (simp_all add: contact_request_def ParseQuery_example_body ParseQuery_empty)
  note th = Contact_success [of contact_request
      "[(''name'', ''Jane''), (''email'', ''jane@x.com''), (''message'', ''hi'')]"
      example_handler example_world
      "[(''name'', ''Jane''), (''email'', ''jane@x.com''), (''message'', ''hi'')]" "[]"]
  from th [THEN conjunct2] r
  have p: "ParseForm contact_request =
     ([(''name'', ''Jane''), (''email'', ''jane@x.com''), (''message'', ''hi'')], None)"
    by simp
  from th [THEN conjunct1, THEN mp, OF p]
  have c: "Contact response_ops example_handler newResponse contact_request example_world =
      Some (\<lparr>handlerHeader = [(''Content-Type'', ''text/html; charset=utf-8'')],
              wroteHeader = True, resp_status = 200,
              sentHeader = [(''Content-Type'', ''text/html; charset=utf-8'')],
              informational = [], body = successFragment\<rparr>,
            \<lparr>stdlog = [Printf ''contact form submission: name=%q email=%q message_len=%d''
                 [ArgString ''Jane'', ArgString ''jane@x.com'', ArgInt 2]], clock = 0\<rparr>)"
    by (simp add: FormValue_def Values_get_def example_world_def)
  from r p c show ?thesis by (intro conjI)
qed

text \<open>
  C2, as the specification states it, fails: the spec's example form, which parses, posted to
  \<^verbatim>\<open>/contact?ref=50%\<close> is answered 400, because \<open>ParseForm\<close> parses the query of
  the URL as well and returns its error.
\<close>

theorem bad_query_counterexample:
  "Method contact_request_bad_query = ''POST'' \<and>
   URL_Path contact_request_bad_query = ''/contact'' \<and>
   URL_RawQuery contact_request_bad_query = ''ref=50%'' \<and>
   MediaType contact_request_bad_query = (''application/x-www-form-urlencoded'', None) \<and>
   ParseQuery (Body contact_request_bad_query) =
     ([(''name'', ''Jane''), (''email'', ''jane@x.com''), (''message'', ''hi'')], None) \<and>
   Contact response_ops example_handler newResponse contact_request_bad_query example_world =
      Some (\<lparr>handlerHeader = [(''Content-Type'', ''text/plain; charset=utf-8''),
                (''X-Content-Type-Options'', ''nosniff'')],
              wroteHeader = True, resp_status = 400,
              sentHeader = [(''Content-Type'', ''text/plain; charset=utf-8''),
                (''X-Content-Type-Options'', ''nosniff'')],
              informational = [], body = ''bad request'' @ [CHR 0x0A]\<rparr>,
            example_world)"
proof -
  have p: "ParseForm contact_request_bad_query =
     ([(''name'', ''Jane''), (''email'', ''jane@x.com''), (''message'', ''hi'')],
      Some (EscapeError ''%''))"
    by (simp add: contact_request_bad_query_def contact_request_def ParseForm_def
        parsePostForm_def ParseQuery_example_body ParseQuery_bad_query)
  have "Contact response_ops example_handler newResponse contact_request_bad_query
      example_world =
      Some (\<lparr>handlerHeader = [(''Content-Type'', ''text/plain; charset=utf-8''),
                (''X-Content-Type-Options'', ''nosniff'')],
              wroteHeader = True, resp_status = 400,
              sentHeader = [(''Content-Type'', ''text/plain; charset=utf-8''),
                (''X-Content-Type-Options'', ''nosniff'')],
              informational = [], body = ''bad request'' @ [CHR 0x0A]\<rparr>,
            example_world)"
    by (simp add: Contact_def p response_defs)
  then show ?thesis
    by (simp add: contact_request_bad_query_def contact_request_def ParseQuery_example_body)
qed

text \<open>
  C3: the log record of a successful submission depends only on the name, the email and
  the length of the message: two submissions whose forms parse, with the same name, the
  same email and messages of the same length, leave the same log (the record appended is
  made of the name, the email and that length), whatever the messages say.
\<close>

theorem Contact_log_noninterference:
  assumes "ParseForm r1 = (form1, None)" and "ParseForm r2 = (form2, None)"
    and "FormValue form1 ''name'' = FormValue form2 ''name''"
    and "FormValue form1 ''email'' = FormValue form2 ''email''"
    and "length (FormValue form1 ''message'') = length (FormValue form2 ''message'')"
  shows "\<exists>w1 w2 wd'. Contact ops h1 w r1 wd = Some (w1, wd') \<and>
    Contact ops h2 w r2 wd = Some (w2, wd') \<and>
    stdlog wd' = stdlog wd @
      [Printf ''contact form submission: name=%q email=%q message_len=%d''
         [ArgString (FormValue form1 ''name''), ArgString (FormValue form1 ''email''),
          ArgInt (int (length (FormValue form1 ''message'')))]]"
  using assms by (simp add: Contact_def)

theorem Contact_log_noninterference_witness:
  "ParseForm contact_request =
     ([(''name'', ''Jane''), (''email'', ''jane@x.com''), (''message'', ''hi'')], None) \<and>
   ParseForm contact_request_other_message =
     ([(''message'', ''no''), (''email'', ''jane@x.com''), (''name'', ''Jane'')], None) \<and>
   (\<exists>w1 w2 wd'.
      Contact response_ops example_handler newResponse contact_request example_world
        = Some (w1, wd') \<and>
      Contact response_ops example_handler newResponse contact_request_other_message example_world
        = Some (w2, wd') \<and>
      stdlog wd' =
        [Printf ''contact form submission: name=%q email=%q message_len=%d''
           [ArgString ''Jane'', ArgString ''jane@x.com'', ArgInt 2]])"
  using Contact_log_noninterference [OF ParseForm_contact_request
      ParseForm_contact_request_other_message,
      of response_ops example_handler newResponse example_world example_handler]
  by (simp add: ParseForm_contact_request ParseForm_contact_request_other_message
      FormValue_def Values_get_def example_world_def)

lemma ParseForm_form_body_error:
  assumes "Method r = ''POST''"
    and "fst (MediaType r) = ''application/x-www-form-urlencoded''"
    and "snd (ParseQuery (Body r)) \<noteq> None"
  shows "snd (ParseForm r) \<noteq> None"
proof -
  obtain ct cterr where m: "MediaType r = (ct, cterr)" by (cases "MediaType r")
  obtain vs e where b: "ParseQuery (Body r) = (vs, e)" by (cases "ParseQuery (Body r)")
  obtain qs e' where q: "ParseQuery (URL_RawQuery r) = (qs, e')"
    by (cases "ParseQuery (URL_RawQuery r)")
  from assms m b have "ct = ''application/x-www-form-urlencoded''" and "e \<noteq> None"
    by simp_all
  then have "snd (parsePostForm r) \<noteq> None"
    by (simp add: parsePostForm_def m b)
  then show ?thesis
    by (cases "parsePostForm r") (auto simp: ParseForm_def assms(1) q)
qed

lemma ParseQuery_bad_body: "ParseQuery ''name=%zz'' = ([], Some (EscapeError ''%zz''))"
  by (simp add: ParseQuery_def ishex_def hexval_def inRange_def and_then_def)

lemma ParseQuery_json_body:
  \<open>ParseQuery ''{"note": "100%"}'' = ([], Some (EscapeError ''%"}''))\<close>
  by (simp add: ParseQuery_def ishex_def hexval_def inRange_def and_then_def)

lemma ParseForm_json_contact_request: "ParseForm json_contact_request = ([], None)"
  by (simp add: json_contact_request_def ParseForm_def parsePostForm_def ParseQuery_def)

text \<open>
  C4, as the code has it: for every request whose form does not parse (\<open>ParseForm\<close>
  returns an error), \<open>Contact\<close> on a new response writes status 400 with the plain-text
  message and returns: the world is as it was, so no submission is logged, and the
  success fragment is not written. A POST whose body is declared as
  \<^verbatim>\<open>application/x-www-form-urlencoded\<close> and cannot be parsed as form data is such a
  request.
\<close>

theorem Contact_bad_form:
  "(ParseForm r = (form, Some err) \<longrightarrow>
      Contact response_ops h newResponse r wd =
        Some (\<lparr>handlerHeader = [(''Content-Type'', ''text/plain; charset=utf-8''),
                  (''X-Content-Type-Options'', ''nosniff'')],
                wroteHeader = True, resp_status = 400,
                sentHeader = [(''Content-Type'', ''text/plain; charset=utf-8''),
                  (''X-Content-Type-Options'', ''nosniff'')],
                informational = [], body = ''bad request'' @ [CHR 0x0A]\<rparr>,
              wd))
 \<and> (Method r = ''POST'' \<and> fst (MediaType r) = ''application/x-www-form-urlencoded'' \<and>
      snd (ParseQuery (Body r)) \<noteq> None \<longrightarrow>
      (\<exists>form err. ParseForm r = (form, Some err)))"
proof (intro conjI impI)
  assume "ParseForm r = (form, Some err)"
  then show "Contact response_ops h newResponse r wd =
        Some (\<lparr>handlerHeader = [(''Content-Type'', ''text/plain; charset=utf-8''),
                  (''X-Content-Type-Options'', ''nosniff'')],
                wroteHeader = True, resp_status = 400,
                sentHeader = [(''Content-Type'', ''text/plain; charset=utf-8''),
                  (''X-Content-Type-Options'', ''nosniff'')],
                informational = [], body = ''bad request'' @ [CHR 0x0A]\<rparr>,
              wd)"
    by (simp add: Contact_def response_defs)
next
  assume "Method r = ''POST'' \<and> fst (MediaType r) = ''application/x-www-form-urlencoded'' \<and>
      snd (ParseQuery (Body r)) \<noteq> None"
  then have "snd (ParseForm r) \<noteq> None"
    using ParseForm_form_body_error [of r] by simp
  then show "\<exists>form err. ParseForm r = (form, Some err)"
    by (cases "ParseForm r") auto
qed

theorem Contact_bad_form_witness:
  "Method bad_contact_request = ''POST'' \<and>
   fst (MediaType bad_contact_request) = ''application/x-www-form-urlencoded'' \<and>
   ParseQuery (Body bad_contact_request) = ([], Some (EscapeError ''%zz'')) \<and>
   ParseForm bad_contact_request = ([], Some (EscapeError ''%zz'')) \<and>
   Contact response_ops example_handler newResponse bad_contact_request example_world =
      Some (\<lparr>handlerHeader = [(''Content-Type'', ''text/plain; charset=utf-8''),
                (''X-Content-Type-Options'', ''nosniff'')],
              wroteHeader = True, resp_status = 400,
              sentHeader = [(''Content-Type'', ''text/plain; charset=utf-8''),
                (''X-Content-Type-Options'', ''nosniff'')],
              informational = [], body = ''bad request'' @ [CHR 0x0A]\<rparr>,
            example_world)"
proof -
  have r: "Method bad_contact_request = ''POST''"
    "fst (MediaType bad_contact_request) = ''application/x-www-form-urlencoded''"
    "ParseQuery (Body bad_contact_request) = ([], Some (EscapeError ''%zz''))"
    by (simp_all add: bad_contact_request_def contact_request_def ParseQuery_bad_body)
  note th = Contact_bad_form [of bad_contact_request "[]" "EscapeError ''%zz''" example_handler
      example_world]
  from th [THEN conjunct1, THEN mp, OF ParseForm_bad_contact_request] r
    ParseForm_bad_contact_request
  show ?thesis by simp
qed

text \<open>
  C4, as the specification states it, fails: a POST whose body is JSON, which is not form data and
  which the form parser rejects, is answered as a submission. The body of this request is
  declared as \<^verbatim>\<open>application/json\<close> and \<open>ParseForm\<close> does not read it, so nothing
  fails: the response is the success fragment with status 200 and a record is logged.
\<close>

theorem json_body_counterexample:
  \<open>Method json_contact_request = ''POST'' \<and>
   MediaType json_contact_request = (''application/json'', None) \<and>
   Body json_contact_request = ''{"note": "100%"}'' \<and>
   ParseQuery (Body json_contact_request) = ([], Some (EscapeError ''%"}'')) \<and>
   Contact response_ops example_handler newResponse json_contact_request example_world =
      Some (\<lparr>handlerHeader = [(''Content-Type'', ''text/html; charset=utf-8'')],
              wroteHeader = True, resp_status = 200,
              sentHeader = [(''Content-Type'', ''text/html; charset=utf-8'')],
              informational = [], body = successFragment\<rparr>,
            \<lparr>stdlog = [Printf ''contact form submission: name=%q email=%q message_len=%d''
                 [ArgString [], ArgString [], ArgInt 0]], clock = 0\<rparr>)\<close>
proof -
  have "Contact response_ops example_handler newResponse json_contact_request example_world =
      Some (\<lparr>handlerHeader = [(''Content-Type'', ''text/html; charset=utf-8'')],
              wroteHeader = True, resp_status = 200,
              sentHeader = [(''Content-Type'', ''text/html; charset=utf-8'')],
              informational = [], body = successFragment\<rparr>,
            \<lparr>stdlog = [Printf ''contact form submission: name=%q email=%q message_len=%d''
                 [ArgString [], ArgString [], ArgInt 0]], clock = 0\<rparr>)"
    by (simp add: Contact_def ParseForm_json_contact_request FormValue_def Values_get_def
        response_ops_def response_Write_def bodyAllowedForStatus_def newResponse_def
        example_world_def)
  then show ?thesis
    by (simp add: json_contact_request_def ParseQuery_json_body)
qed

section \<open>The health check\<close>

text \<open>
  C7: for every request, \<open>Health\<close> on a new response writes status 200 and no body, and
  leaves the world as it was; what it does is the same for every handler state and every
  request, on any writer.
\<close>

theorem Health_ok:
  "Health response_ops h newResponse r wd =
     Some (\<lparr>handlerHeader = [], wroteHeader = True, resp_status = 200, sentHeader = [],
             informational = [], body = []\<rparr>, wd) \<and>
   Health ops h w r wd = Health ops h' w r' wd"
  by (simp add: Health_def response_defs)

section \<open>The routes that render a template\<close>

text \<open>
  C5: when the execution of the template fails, \<open>execute\<close> logs the error and calls
  \<^verbatim>\<open>http.Error\<close> with the generic message and status 500. But the template writes
  straight to the response, and its first write sends the header, with status 200: the
  \<^verbatim>\<open>WriteHeader(500)\<close> of \<^verbatim>\<open>http.Error\<close> then comes after the header and is
  ignored. With a template set whose \<^verbatim>\<open>about\<close> template writes a tag and then fails,
  the response of the route \<open>About\<close> has status 200, and the generic message follows
  the tag in its body; the error is logged. The status 500 that the code asks for reaches
  the client only if the template fails before it writes, as \<^verbatim>\<open>projects\<close> does in
  the same set.
\<close>

theorem About_failure_after_output:
  "tmpl example_handler ''about'' (pageData example_handler) =
     ([''<section>''], Some (LibraryError ''about: no such field'')) \<and>
   (\<exists>w wd.
      About response_ops example_handler newResponse page_request example_world = Some (w, wd) \<and>
      wroteHeader w \<and> resp_status w = 200 \<and>
      body w = ''<section>internal server error'' @ [CHR 0x0A] \<and>
      Printf ''template %q error: %v''
        [ArgString ''about'', ArgError (LibraryError ''about: no such field'')]
        \<in> set (stdlog wd)) \<and>
   tmpl example_handler ''projects'' (pageData example_handler) =
     ([], Some (LibraryError ''no such template'')) \<and>
   (\<exists>w wd.
      Projects response_ops example_handler newResponse projects_request example_world
        = Some (w, wd) \<and>
      wroteHeader w \<and> resp_status w = 500 \<and>
      body w = ''internal server error'' @ [CHR 0x0A] \<and>
      Printf ''template %q error: %v''
        [ArgString ''projects'', ArgError (LibraryError ''no such template'')]
        \<in> set (stdlog wd))"
  by (simp add: About_def Projects_def execute_def example_handler_def example_tmpl_def
      response_defs example_world_def)

section \<open>The logging middleware\<close>






text \<open>Each method of the handler package, run on the wrapper, is a handler given by its calls.\<close>

lemma run_calls_append:
  "run_calls ops (xs @ ys) s =
     (case run_calls ops xs s of None \<Rightarrow> None | Some s' \<Rightarrow> run_calls ops ys s')"
  by (induction xs arbitrary: s) (simp_all split: option.splits)

lemma run_calls_writes:
  "run_calls ops (map CallWrite chunks) (w, wd) = Some (fold (Write ops) chunks w, wd)"
  by (induction chunks arbitrary: w) simp_all

lemma run_Error_calls:
  "run_calls ops (Error_calls err code) (w, wd) =
     (case http_Error ops w err code of None \<Rightarrow> None | Some w' \<Rightarrow> Some (w', wd))"
  by (simp add: Error_calls_def http_Error_def split: option.splits)

lemma execute_as_calls: "execute ops h w name data wd = run_calls ops (execute_calls h name data) (w, wd)"
  by (simp add: execute_def execute_calls_def run_calls_append run_calls_writes run_Error_calls
      split: prod.splits option.splits)

lemma Contact_as_calls: "Contact ops h w r wd = run_calls ops (Contact_calls r) (w, wd)"
  by (simp add: Contact_def Contact_calls_def run_Error_calls split: prod.splits option.splits)

lemma methods_scripted:
  "call_method responseWriter_ops op h rw r wd = scripted (method_calls op h) rw r wd"
  by (cases op)
    (simp_all add: call_method_def scripted_def method_calls_def Index_def About_def
      Projects_def Interests_def Health_def execute_as_calls Contact_as_calls
      split: option.splits)




section \<open>The handler's state\<close>












end
